theory Spec2Isabelle
  imports Complex_Main
begin

section \<open>JavaScript values and the operations the module applies to them\<close>

text \<open>
  The module \<^verbatim>\<open>src/backend/life_saver/nlp/nlp.js\<close> receives data from a remote
  collaborator and reshapes it. The data is plain JavaScript data: \<^verbatim>\<open>undefined\<close>,
  \<^verbatim>\<open>null\<close>, booleans, numbers, strings, arrays and objects. An object is the list of
  its own properties in insertion order. The module never computes with a number: it
  copies numbers and writes the literal \<^verbatim>\<open>0\<close>.
\<close>

datatype jsval =
    JUndefined
  | JNull
  | JBool bool
  | JNum real
  | JStr string
  | JArr "jsval list"
  | JObj "(string \<times> jsval) list"

text \<open>
  What a JavaScript computation can throw here: the \<^verbatim>\<open>TypeError\<close> of the language
  itself (reading a property of \<^verbatim>\<open>undefined\<close> or \<^verbatim>\<open>null\<close>, iterating a value that
  is not iterable), or whatever value the collaborator throws or rejects with.
\<close>

datatype js_error = TypeError | Thrown jsval

text \<open>Sequencing of statements that may throw: the first throw ends the sequence.\<close>

definition seq :: "js_error + 'a \<Rightarrow> ('a \<Rightarrow> js_error + 'b) \<Rightarrow> js_error + 'b" where
  "seq m f = (case m of Inl err \<Rightarrow> Inl err | Inr v \<Rightarrow> f v)"

text \<open>
  \<^verbatim>\<open>v.k\<close>: a \<^verbatim>\<open>TypeError\<close> on \<^verbatim>\<open>undefined\<close> and \<^verbatim>\<open>null\<close>, the property's value on
  an object that has it, \<^verbatim>\<open>undefined\<close> otherwise. None of the names the module reads
  (\<^verbatim>\<open>documentSentiment\<close>, \<^verbatim>\<open>magnitude\<close>, \<^verbatim>\<open>score\<close>, \<^verbatim>\<open>sentences\<close>, \<^verbatim>\<open>text\<close>,
  \<^verbatim>\<open>content\<close>, \<^verbatim>\<open>sentiment\<close>, \<^verbatim>\<open>entities\<close>, \<^verbatim>\<open>tokens\<close>, \<^verbatim>\<open>partOfSpeech\<close>, \<^verbatim>\<open>tag\<close>,
  \<^verbatim>\<open>categories\<close>, \<^verbatim>\<open>name\<close>, \<^verbatim>\<open>confidence\<close>) is a property of a built-in prototype, so
  on a boolean, a number, a string or an array the read gives \<^verbatim>\<open>undefined\<close>.
\<close>

fun getProp :: "jsval \<Rightarrow> string \<Rightarrow> js_error + jsval" where
  "getProp JUndefined k = Inl TypeError"
| "getProp JNull k = Inl TypeError"
| "getProp (JObj fs) k = Inr (case map_of fs k of None \<Rightarrow> JUndefined | Some v \<Rightarrow> v)"
| "getProp v k = Inr JUndefined"

text \<open>\<^verbatim>\<open>v.k1.k2\<close>: two reads, the second on the result of the first.\<close>

definition getPath :: "jsval \<Rightarrow> string \<Rightarrow> string \<Rightarrow> js_error + jsval" where
  "getPath v k1 k2 = seq (getProp v k1) (\<lambda>x. getProp x k2)"

text \<open>
  The values a \<^verbatim>\<open>for (const x of v)\<close> loop or an array pattern \<^verbatim>\<open>[x] = v\<close> runs
  through: the elements of an array, the characters of a string; any other value of
  \<^typ>\<open>jsval\<close> is not iterable and the statement throws a \<^verbatim>\<open>TypeError\<close>.
\<close>

fun iterate :: "jsval \<Rightarrow> js_error + jsval list" where
  "iterate (JArr xs) = Inr xs"
| "iterate (JStr s) = Inr (map (\<lambda>c. JStr [c]) s)"
| "iterate v = Inl TypeError"

text \<open>\<^verbatim>\<open>let [x] = v\<close>: the first value of the iteration, \<^verbatim>\<open>undefined\<close> when there is none.\<close>

definition first_of :: "jsval \<Rightarrow> js_error + jsval" where
  "first_of v = seq (iterate v) (\<lambda>xs. Inr (case xs of [] \<Rightarrow> JUndefined | x # _ \<Rightarrow> x))"

text \<open>The property name of an array index: its decimal numeral.\<close>

fun index_key :: "nat \<Rightarrow> string" where
  "index_key n =
     (if n < 10 then [char_of (48 + n)]
      else index_key (n div 10) @ [char_of (48 + n mod 10)])"

text \<open>\<^verbatim>\<open>v[i]\<close> for a literal index \<^verbatim>\<open>i\<close>.\<close>

fun index :: "jsval \<Rightarrow> nat \<Rightarrow> js_error + jsval" where
  "index JUndefined i = Inl TypeError"
| "index JNull i = Inl TypeError"
| "index (JArr xs) i = Inr (if i < length xs then xs ! i else JUndefined)"
| "index (JStr s) i = Inr (if i < length s then JStr [s ! i] else JUndefined)"
| "index (JObj fs) i = getProp (JObj fs) (index_key i)"
| "index v i = Inr JUndefined"

section \<open>The remote collaborator\<close>

text \<open>
  The document the module builds at line 64 and sends with every request.
\<close>

record document =
  content :: string
  doc_type :: string

text \<open>
  The client of the natural language service. Each of its four methods is awaited by the
  module: the call either resolves to a value or rejects, and it may change the state
  \<^typ>\<open>'s\<close> of the world outside the module (the service, the network), on which later
  answers may depend.
\<close>

type_synonym 's request = "document \<Rightarrow> 's \<Rightarrow> (js_error + jsval) \<times> 's"

record 's client =
  analyzeSentiment :: "'s request"
  analyzeEntities :: "'s request"
  analyzeSyntax :: "'s request"
  classifyText :: "'s request"

text \<open>
  The library \<^verbatim>\<open>@google-cloud/language\<close>: its constructor takes the options object with
  the name of the key file and gives a client, or throws.
\<close>

record 's language =
  LanguageServiceClient :: "string \<Rightarrow> js_error + 's client"

text \<open>The module loader: \<^verbatim>\<open>require(name)\<close> gives the library or throws.\<close>

record 's environment =
  require :: "string \<Rightarrow> js_error + 's language"

section \<open>analyzeText\<close>

text \<open>Lines 77 to 81: the record pushed for one sentence.\<close>

definition sentence_record :: "jsval \<Rightarrow> js_error + jsval" where
  "sentence_record sentence =
     seq (getPath sentence ''text'' ''content'') (\<lambda>text_content.
     seq (getPath sentence ''sentiment'' ''magnitude'') (\<lambda>magnitude.
     seq (getPath sentence ''sentiment'' ''score'') (\<lambda>score.
     Inr (JObj [(''text'', text_content), (''magnitude'', magnitude), (''score'', score)]))))"

text \<open>Lines 76 to 82: the loop over the sentences, pushing onto \<^verbatim>\<open>sentiment_result\<close>.\<close>

fun push_sentences :: "jsval list \<Rightarrow> jsval list \<Rightarrow> js_error + jsval list" where
  "push_sentences [] sentiment_result = Inr sentiment_result"
| "push_sentences (sentence # rest) sentiment_result =
     seq (sentence_record sentence) (\<lambda>r. push_sentences rest (sentiment_result @ [r]))"

text \<open>Lines 69 to 82, from the value the awaited call resolved to.\<close>

definition sentiment_result_of :: "jsval \<Rightarrow> js_error + jsval" where
  "sentiment_result_of response =
     seq (first_of response) (\<lambda>sentiment_result_raw.
     seq (getPath sentiment_result_raw ''documentSentiment'' ''magnitude'') (\<lambda>magnitude.
     seq (getPath sentiment_result_raw ''documentSentiment'' ''score'') (\<lambda>score.
     seq (getProp sentiment_result_raw ''sentences'') (\<lambda>sentences.
     seq (iterate sentences) (\<lambda>items.
     seq (push_sentences items [JObj [(''magnitude'', magnitude), (''score'', score)]])
       (\<lambda>sentiment_result. Inr (JArr sentiment_result)))))))"

text \<open>Lines 88 and 89: the entities are handed on as the collaborator gave them.\<close>

definition entity_result_of :: "jsval \<Rightarrow> js_error + jsval" where
  "entity_result_of response =
     seq (first_of response) (\<lambda>entity_result_raw. getProp entity_result_raw ''entities'')"

text \<open>Lines 98 to 101: the record pushed for one token.\<close>

definition token_record :: "jsval \<Rightarrow> js_error + jsval" where
  "token_record token =
     seq (getPath token ''partOfSpeech'' ''tag'') (\<lambda>tag.
     seq (getPath token ''text'' ''content'') (\<lambda>text_content.
     Inr (JObj [(''partOfSpeech'', tag), (''word'', text_content)])))"

fun push_tokens :: "jsval list \<Rightarrow> jsval list \<Rightarrow> js_error + jsval list" where
  "push_tokens [] syntax_result = Inr syntax_result"
| "push_tokens (token # rest) syntax_result =
     seq (token_record token) (\<lambda>r. push_tokens rest (syntax_result @ [r]))"

text \<open>Lines 95 to 102.\<close>

definition syntax_result_of :: "jsval \<Rightarrow> js_error + jsval" where
  "syntax_result_of response =
     seq (first_of response) (\<lambda>syntax_result_raw.
     seq (getProp syntax_result_raw ''tokens'') (\<lambda>tokens.
     seq (iterate tokens) (\<lambda>items.
     seq (push_tokens items []) (\<lambda>syntax_result. Inr (JArr syntax_result)))))"

text \<open>Lines 111 to 114: the record pushed for one category.\<close>

definition category_record :: "jsval \<Rightarrow> js_error + jsval" where
  "category_record category =
     seq (getProp category ''name'') (\<lambda>name.
     seq (getProp category ''confidence'') (\<lambda>confidence.
     Inr (JObj [(''name'', name), (''confidence'', confidence)])))"

fun push_categories :: "jsval list \<Rightarrow> jsval list \<Rightarrow> js_error + jsval list" where
  "push_categories [] classify_result = Inr classify_result"
| "push_categories (category # rest) classify_result =
     seq (category_record category) (\<lambda>r. push_categories rest (classify_result @ [r]))"

text \<open>Lines 108 to 115.\<close>

definition classify_result_of :: "jsval \<Rightarrow> js_error + jsval" where
  "classify_result_of response =
     seq (first_of response) (\<lambda>classify_result_raw.
     seq (getProp classify_result_raw ''categories'') (\<lambda>categories.
     seq (iterate categories) (\<lambda>items.
     seq (push_categories items []) (\<lambda>classify_result. Inr (JArr classify_result)))))"

text \<open>
  One of the four blocks of \<^verbatim>\<open>analyzeText\<close> (lines 67 to 83, 86 to 90, 93 to 103 and
  106 to 116): the result is \<^verbatim>\<open>null\<close> and nothing is sent when the flag is false;
  otherwise the request is awaited, a rejection is thrown on, and the resolved value is
  reshaped.
\<close>

definition stage ::
  "bool \<Rightarrow> 's request \<Rightarrow> (jsval \<Rightarrow> js_error + jsval) \<Rightarrow> document \<Rightarrow> 's \<Rightarrow> (js_error + jsval) \<times> 's"
where
  "stage flag call reshape doc s =
     (if flag then
        (case call doc s of
           (Inl err, s') \<Rightarrow> (Inl err, s')
         | (Inr response, s') \<Rightarrow> (reshape response, s'))
      else (Inr JNull, s))"

text \<open>Lines 61 to 63: loading the library and creating the client.\<close>

definition keyFilename :: string where
  "keyFilename = ''../gcloud-language-key/RU-Hacks-2020-key.json''"

definition new_client :: "'s environment \<Rightarrow> js_error + 's client" where
  "new_client env =
     seq (require env ''@google-cloud/language'') (\<lambda>language.
       LanguageServiceClient language keyFilename)"

text \<open>Line 64.\<close>

definition make_document :: "string \<Rightarrow> document" where
  "make_document text = \<lparr>content = text, doc_type = ''PLAIN_TEXT''\<rparr>"

text \<open>
  \<^verbatim>\<open>analyzeText\<close>, lines 54 to 119. The four blocks run one after the other; the first
  throw leaves the function with that error, in the state reached so far. The flags are
  booleans; a flag the caller omits is \<^verbatim>\<open>true\<close> (lines 56 to 59), which is the call with
  \<open>True\<close> for it.
\<close>

definition analyzeText ::
  "'s environment \<Rightarrow> string \<Rightarrow> bool \<Rightarrow> bool \<Rightarrow> bool \<Rightarrow> bool \<Rightarrow> 's \<Rightarrow> (js_error + jsval) \<times> 's"
where
  "analyzeText env text analyze_sentiment analyze_entities analyze_syntax classify_content s0 =
     (case new_client env of
        Inl err \<Rightarrow> (Inl err, s0)
      | Inr client \<Rightarrow>
          let document = make_document text in
          (case stage analyze_sentiment (analyzeSentiment client) sentiment_result_of document s0 of
             (Inl err, s1) \<Rightarrow> (Inl err, s1)
           | (Inr sentiment_result, s1) \<Rightarrow>
          (case stage analyze_entities (analyzeEntities client) entity_result_of document s1 of
             (Inl err, s2) \<Rightarrow> (Inl err, s2)
           | (Inr entity_result, s2) \<Rightarrow>
          (case stage analyze_syntax (analyzeSyntax client) syntax_result_of document s2 of
             (Inl err, s3) \<Rightarrow> (Inl err, s3)
           | (Inr syntax_result, s3) \<Rightarrow>
          (case stage classify_content (classifyText client) classify_result_of document s3 of
             (Inl err, s4) \<Rightarrow> (Inl err, s4)
           | (Inr classify_result, s4) \<Rightarrow>
               (Inr (JArr [sentiment_result, entity_result, syntax_result, classify_result]),
                s4))))))"

section \<open>analyzeTextWrapper\<close>

text \<open>Lines 141 to 144: the placeholder values.\<close>

definition sentiment_result_dummy :: jsval where
  "sentiment_result_dummy =
     JArr [JObj [(''magnitude'', JNum 0), (''score'', JNum 0)],
           JObj [(''text'', JStr ''dummy_text''), (''magnitude'', JNum 0), (''score'', JNum 0)]]"

definition entity_result_dummy :: jsval where
  "entity_result_dummy =
     JArr [JObj [(''name'', JStr ''dummy_name''), (''type'', JStr ''OTHER''),
                 (''salience'', JNum 0)]]"

definition syntax_result_dummy :: jsval where
  "syntax_result_dummy =
     JArr [JObj [(''word'', JStr ''dummy_word''), (''partOfSpeech'', JStr ''NOUN'')]]"

definition classify_result_dummy :: jsval where
  "classify_result_dummy =
     JArr [JObj [(''name'', JStr ''dummy_category''), (''confidence'', JNum 0)]]"

text \<open>
  \<^verbatim>\<open>analyzeTextWrapper\<close>, lines 121 to 152. The body of the \<^verbatim>\<open>try\<close> awaits
  \<^verbatim>\<open>analyzeText\<close> and reads the four elements of its result; whatever is thrown there
  is caught, and the handler assigns all four variables from the flags. The function
  then returns the array of the four variables.
\<close>

definition analyzeTextWrapper ::
  "'s environment \<Rightarrow> string \<Rightarrow> bool \<Rightarrow> bool \<Rightarrow> bool \<Rightarrow> bool \<Rightarrow> 's \<Rightarrow> (js_error + jsval) \<times> 's"
where
  "analyzeTextWrapper env text analyze_sentiment analyze_entities analyze_syntax classify_content s0 =
     (let (awaited, s1) =
            analyzeText env text analyze_sentiment analyze_entities analyze_syntax
              classify_content s0;
          tried =
            seq awaited (\<lambda>result.
            seq (index result 0) (\<lambda>sentiment_result.
            seq (index result 1) (\<lambda>entity_result.
            seq (index result 2) (\<lambda>syntax_result.
            seq (index result 3) (\<lambda>classify_result.
            Inr (sentiment_result, entity_result, syntax_result, classify_result))))));
          (sentiment_result, entity_result, syntax_result, classify_result) =
            (case tried of
               Inr assigned \<Rightarrow> assigned
             | Inl err \<Rightarrow>
                 (if analyze_sentiment then sentiment_result_dummy else JNull,
                  if analyze_entities then entity_result_dummy else JNull,
                  if analyze_syntax then syntax_result_dummy else JNull,
                  if classify_content then classify_result_dummy else JNull))
      in (Inr (JArr [sentiment_result, entity_result, syntax_result, classify_result]), s1))"

text \<open>Line 202: what the module exports.\<close>

definition module_exports ::
  "'s environment \<Rightarrow> string \<Rightarrow> bool \<Rightarrow> bool \<Rightarrow> bool \<Rightarrow> bool \<Rightarrow> 's \<Rightarrow> (js_error + jsval) \<times> 's"
where
  "module_exports = analyzeText"

section \<open>Notions used to state the properties\<close>

text \<open>
  The states of the outside world in which \<^verbatim>\<open>analyzeText\<close> sends its second, third and
  fourth request: the state the block before left.
\<close>

definition state_before_entities :: "'s client \<Rightarrow> document \<Rightarrow> bool \<Rightarrow> 's \<Rightarrow> 's" where
  "state_before_entities client doc a s0 =
     snd (stage a (analyzeSentiment client) sentiment_result_of doc s0)"

definition state_before_syntax :: "'s client \<Rightarrow> document \<Rightarrow> bool \<Rightarrow> bool \<Rightarrow> 's \<Rightarrow> 's" where
  "state_before_syntax client doc a b s0 =
     snd (stage b (analyzeEntities client) entity_result_of doc
            (state_before_entities client doc a s0))"

definition state_before_classify ::
  "'s client \<Rightarrow> document \<Rightarrow> bool \<Rightarrow> bool \<Rightarrow> bool \<Rightarrow> 's \<Rightarrow> 's"
where
  "state_before_classify client doc a b c s0 =
     snd (stage c (analyzeSyntax client) syntax_result_of doc
            (state_before_syntax client doc a b s0))"

text \<open>
  A request that the call sends is rejected with \<open>err\<close>. A request is sent when its flag
  is true and every block before it has completed.
\<close>

definition request_rejects ::
  "'s client \<Rightarrow> document \<Rightarrow> bool \<Rightarrow> bool \<Rightarrow> bool \<Rightarrow> bool \<Rightarrow> 's \<Rightarrow> js_error \<Rightarrow> bool"
where
  "request_rejects client doc a b c d s0 err =
     (let s1 = state_before_entities client doc a s0;
          s2 = state_before_syntax client doc a b s0;
          s3 = state_before_classify client doc a b c s0;
          done1 = \<not> isl (fst (stage a (analyzeSentiment client) sentiment_result_of doc s0));
          done2 = \<not> isl (fst (stage b (analyzeEntities client) entity_result_of doc s1));
          done3 = \<not> isl (fst (stage c (analyzeSyntax client) syntax_result_of doc s2))
      in (a \<and> fst (analyzeSentiment client doc s0) = Inl err)
       \<or> (b \<and> done1 \<and> fst (analyzeEntities client doc s1) = Inl err)
       \<or> (c \<and> done1 \<and> done2 \<and> fst (analyzeSyntax client doc s2) = Inl err)
       \<or> (d \<and> done1 \<and> done2 \<and> done3 \<and> fst (classifyText client doc s3) = Inl err))"

text \<open>
  A collaborator with a fixed response function: what a request resolves to or is
  rejected with depends on the document only, not on the state of the outside world.
\<close>

definition fixed_responses :: "'s client \<Rightarrow> bool" where
  "fixed_responses client \<longleftrightarrow>
     (\<forall>doc s s'.
        fst (analyzeSentiment client doc s) = fst (analyzeSentiment client doc s') \<and>
        fst (analyzeEntities client doc s) = fst (analyzeEntities client doc s') \<and>
        fst (analyzeSyntax client doc s) = fst (analyzeSyntax client doc s') \<and>
        fst (classifyText client doc s) = fst (classifyText client doc s'))"

text \<open>
  The sequence a response carries under the property \<open>k\<close> of its first element: the values
  the module's loop over \<^verbatim>\<open>raw.k\<close> runs through (the sentences, the tokens, the
  categories the collaborator returned).
\<close>

definition returned_list :: "jsval \<Rightarrow> string \<Rightarrow> js_error + jsval list" where
  "returned_list response k = seq (first_of response) (\<lambda>raw. seq (getProp raw k) iterate)"

section \<open>Example collaborators\<close>

text \<open>
  A collaborator that answers every request, in the shape the service uses, and counts
  the requests it has received. Its answers carry more than the module reads.
\<close>

definition example_token :: "string \<Rightarrow> string \<Rightarrow> jsval" where
  "example_token word tag =
     JObj [(''text'', JObj [(''content'', JStr word), (''beginOffset'', JNum 0)]),
           (''partOfSpeech'', JObj [(''tag'', JStr tag), (''number'', JStr ''SINGULAR'')]),
           (''dependencyEdge'', JObj [(''headTokenIndex'', JNum 1)]),
           (''lemma'', JStr word)]"

definition example_client :: "nat client" where
  "example_client =
     \<lparr>analyzeSentiment = (\<lambda>doc n.
        (Inr (JArr [JObj [(''documentSentiment'',
                            JObj [(''magnitude'', JNum 0.9), (''score'', JNum 0.9)]),
                          (''language'', JStr ''en''),
                          (''sentences'',
                            JArr [JObj [(''text'', JObj [(''content'', JStr (content doc))]),
                                        (''sentiment'',
                                          JObj [(''magnitude'', JNum 0.9),
                                                (''score'', JNum 0.9)])]])]]),
         Suc n)),
      analyzeEntities = (\<lambda>doc n.
        (Inr (JArr [JObj [(''entities'',
                            JArr [JObj [(''name'', JStr ''this''), (''type'', JStr ''OTHER''),
                                        (''salience'', JNum 1), (''mentions'', JArr [])]])]]),
         Suc n)),
      analyzeSyntax = (\<lambda>doc n.
        (Inr (JArr [JObj [(''tokens'',
                            JArr [example_token ''I'' ''PRON'',
                                  example_token ''love'' ''VERB''])]]),
         Suc n)),
      classifyText = (\<lambda>doc n.
        (Inr (JArr [JObj [(''categories'', JArr [])]]), Suc n))\<rparr>"

text \<open>The same collaborator, except that the syntax request is rejected.\<close>

definition unavailable_syntax_client :: "nat client" where
  "unavailable_syntax_client =
     example_client\<lparr>analyzeSyntax :=
       (\<lambda>doc n. (Inl (Thrown (JStr ''UNAVAILABLE'')), Suc n))\<rparr>"

text \<open>The same collaborator, except that its entity response carries \<^verbatim>\<open>entities: null\<close>.\<close>

definition null_entities_client :: "nat client" where
  "null_entities_client =
     example_client\<lparr>analyzeEntities :=
       (\<lambda>doc n. (Inr (JArr [JObj [(''entities'', JNull)]]), Suc n))\<rparr>"

text \<open>An environment in which the library loads and its constructor gives the client.\<close>

definition environment_of :: "'s client \<Rightarrow> 's environment" where
  "environment_of client =
     \<lparr>require = (\<lambda>name.
        if name = ''@google-cloud/language''
        then Inr \<lparr>LanguageServiceClient = (\<lambda>key. Inr client)\<rparr>
        else Inl (Thrown (JStr ''MODULE_NOT_FOUND'')))\<rparr>"

section \<open>Sequencing, loops and blocks\<close>

lemma seq_Inl [simp]: "seq (Inl err) f = Inl err"
  by (simp add: seq_def)

lemma seq_Inr [simp]: "seq (Inr v) f = f v"
  by (simp add: seq_def)

lemma seq_eq_Inr: "seq m f = Inr r \<longleftrightarrow> (\<exists>v. m = Inr v \<and> f v = Inr r)"
  by (cases m) simp_all

lemma push_sentences_Inr:
  "push_sentences xs acc = Inr res \<longleftrightarrow>
     (\<exists>rs. list_all2 (\<lambda>x r. sentence_record x = Inr r) xs rs \<and> res = acc @ rs)"
proof (induction xs arbitrary: acc)
  case Nil
  then show ?case by auto
next
  case (Cons x xs)
  show ?case
    by (auto simp: seq_eq_Inr Cons.IH list_all2_Cons1)
qed

lemma push_tokens_Inr:
  "push_tokens xs acc = Inr res \<longleftrightarrow>
     (\<exists>rs. list_all2 (\<lambda>x r. token_record x = Inr r) xs rs \<and> res = acc @ rs)"
proof (induction xs arbitrary: acc)
  case Nil
  then show ?case by auto
next
  case (Cons x xs)
  show ?case
    by (auto simp: seq_eq_Inr Cons.IH list_all2_Cons1)
qed

lemma push_categories_Inr:
  "push_categories xs acc = Inr res \<longleftrightarrow>
     (\<exists>rs. list_all2 (\<lambda>x r. category_record x = Inr r) xs rs \<and> res = acc @ rs)"
proof (induction xs arbitrary: acc)
  case Nil
  then show ?case by auto
next
  case (Cons x xs)
  show ?case
    by (auto simp: seq_eq_Inr Cons.IH list_all2_Cons1)
qed

lemma stage_False [simp]: "stage False call reshape doc s = (Inr JNull, s)"
  by (simp add: stage_def)

lemma stage_True_Inr:
  "stage True call reshape doc s = (Inr r, s') \<longleftrightarrow>
     (\<exists>response. call doc s = (Inr response, s') \<and> reshape response = Inr r)"
  by (auto simp: stage_def split: prod.splits sum.splits)

lemma stage_rejects:
  "flag \<Longrightarrow> fst (call doc s) = Inl err \<Longrightarrow> fst (stage flag call reshape doc s) = Inl err"
  by (auto simp: stage_def split: prod.splits sum.splits)

section \<open>The result of analyzeText and of analyzeTextWrapper\<close>

lemma analyzeText_Inr:
  "analyzeText env text a b c d s0 = (Inr result, s4) \<longleftrightarrow>
     (\<exists>client r1 r2 r3 r4 s1 s2 s3.
        new_client env = Inr client \<and>
        stage a (analyzeSentiment client) sentiment_result_of (make_document text) s0 = (Inr r1, s1) \<and>
        stage b (analyzeEntities client) entity_result_of (make_document text) s1 = (Inr r2, s2) \<and>
        stage c (analyzeSyntax client) syntax_result_of (make_document text) s2 = (Inr r3, s3) \<and>
        stage d (classifyText client) classify_result_of (make_document text) s3 = (Inr r4, s4) \<and>
        result = JArr [r1, r2, r3, r4])"
  unfolding analyzeText_def Let_def
  by (auto split: prod.splits sum.splits)

lemma analyzeText_result:
  "fst (analyzeText env text a b c d s0) = Inr result \<Longrightarrow>
     \<exists>r1 r2 r3 r4. result = JArr [r1, r2, r3, r4]"
  unfolding analyzeText_def Let_def
  by (auto split: prod.splits sum.splits)

lemma analyzeTextWrapper_eq:
  "analyzeTextWrapper env text a b c d s0 =
     (case analyzeText env text a b c d s0 of
        (Inr result, s1) \<Rightarrow> (Inr result, s1)
      | (Inl err, s1) \<Rightarrow>
          (Inr (JArr [if a then sentiment_result_dummy else JNull,
                      if b then entity_result_dummy else JNull,
                      if c then syntax_result_dummy else JNull,
                      if d then classify_result_dummy else JNull]), s1))"
proof (cases "analyzeText env text a b c d s0")
  case (Pair awaited s1)
  show ?thesis
  proof (cases awaited)
    case (Inl err)
    with Pair show ?thesis by (simp add: analyzeTextWrapper_def)
  next
    case (Inr result)
    with Pair have "fst (analyzeText env text a b c d s0) = Inr result" by simp
    from analyzeText_result [OF this]
    obtain r1 r2 r3 r4 where "result = JArr [r1, r2, r3, r4]" by auto
    with Pair Inr show ?thesis by (simp add: analyzeTextWrapper_def)
  qed
qed

lemma stage_fst:
  "fst (stage flag call reshape doc s) = (if flag then seq (fst (call doc s)) reshape else Inr JNull)"
  by (auto simp: stage_def split: prod.splits sum.splits)

lemma analyzeText_fst:
  assumes "new_client env = Inr client"
  shows "fst (analyzeText env text a b c d s0) =
     seq (fst (stage a (analyzeSentiment client) sentiment_result_of (make_document text) s0))
       (\<lambda>r1.
     seq (fst (stage b (analyzeEntities client) entity_result_of (make_document text)
                 (state_before_entities client (make_document text) a s0)))
       (\<lambda>r2.
     seq (fst (stage c (analyzeSyntax client) syntax_result_of (make_document text)
                 (state_before_syntax client (make_document text) a b s0)))
       (\<lambda>r3.
     seq (fst (stage d (classifyText client) classify_result_of (make_document text)
                 (state_before_classify client (make_document text) a b c s0)))
       (\<lambda>r4. Inr (JArr [r1, r2, r3, r4])))))"
  using assms
  unfolding analyzeText_def Let_def state_before_entities_def state_before_syntax_def
    state_before_classify_def
  by (simp split: prod.splits sum.splits)

lemma analyzeText_no_client:
  "new_client env = Inl err \<Longrightarrow> analyzeText env text a b c d s0 = (Inl err, s0)"
  by (simp add: analyzeText_def)


lemma request_rejects_analyzeText:
  assumes cl: "new_client env = Inr client"
    and rej: "request_rejects client (make_document text) a b c d s0 err"
  shows "fst (analyzeText env text a b c d s0) = Inl err"
proof -
  define doc where "doc = make_document text"
  define s1 where "s1 = state_before_entities client doc a s0"
  define s2 where "s2 = state_before_syntax client doc a b s0"
  define s3 where "s3 = state_before_classify client doc a b c s0"
  define R1 where "R1 = fst (stage a (analyzeSentiment client) sentiment_result_of doc s0)"
  define R2 where "R2 = fst (stage b (analyzeEntities client) entity_result_of doc s1)"
  define R3 where "R3 = fst (stage c (analyzeSyntax client) syntax_result_of doc s2)"
  define R4 where "R4 = fst (stage d (classifyText client) classify_result_of doc s3)"
  have res: "fst (analyzeText env text a b c d s0) =
      seq R1 (\<lambda>r1. seq R2 (\<lambda>r2. seq R3 (\<lambda>r3. seq R4 (\<lambda>r4. Inr (JArr [r1, r2, r3, r4])))))"
    unfolding analyzeText_fst [OF cl] R1_def R2_def R3_def R4_def s1_def s2_def s3_def doc_def ..
  from rej have rr:
    "(a \<and> fst (analyzeSentiment client doc s0) = Inl err) \<or>
     (b \<and> \<not> isl R1 \<and> fst (analyzeEntities client doc s1) = Inl err) \<or>
     (c \<and> \<not> isl R1 \<and> \<not> isl R2 \<and> fst (analyzeSyntax client doc s2) = Inl err) \<or>
     (d \<and> \<not> isl R1 \<and> \<not> isl R2 \<and> \<not> isl R3 \<and>
        fst (classifyText client doc s3) = Inl err)"
    unfolding request_rejects_def Let_def R1_def R2_def R3_def s1_def s2_def s3_def doc_def .
  then show ?thesis
  proof (elim disjE conjE)
    assume "a" "fst (analyzeSentiment client doc s0) = Inl err"
    then have "R1 = Inl err" unfolding R1_def by (rule stage_rejects)
    then show ?thesis by (simp add: res)
  next
    assume h: "b" "\<not> isl R1" "fst (analyzeEntities client doc s1) = Inl err"
    from h(1,3) have "R2 = Inl err" unfolding R2_def by (rule stage_rejects)
    moreover from h(2) obtain r1 where "R1 = Inr r1" by (cases R1) simp_all
    ultimately show ?thesis by (simp add: res)
  next
    assume h: "c" "\<not> isl R1" "\<not> isl R2" "fst (analyzeSyntax client doc s2) = Inl err"
    from h(1,4) have "R3 = Inl err" unfolding R3_def by (rule stage_rejects)
    moreover from h(2) obtain r1 where "R1 = Inr r1" by (cases R1) simp_all
    moreover from h(3) obtain r2 where "R2 = Inr r2" by (cases R2) simp_all
    ultimately show ?thesis by (simp add: res)
  next
    assume h: "d" "\<not> isl R1" "\<not> isl R2" "\<not> isl R3"
      "fst (classifyText client doc s3) = Inl err"
    from h(1,5) have "R4 = Inl err" unfolding R4_def by (rule stage_rejects)
    moreover from h(2) obtain r1 where "R1 = Inr r1" by (cases R1) simp_all
    moreover from h(3) obtain r2 where "R2 = Inr r2" by (cases R2) simp_all
    moreover from h(4) obtain r3 where "R3 = Inr r3" by (cases R3) simp_all
    ultimately show ?thesis by (simp add: res)
  qed
qed

lemma analyzeTextWrapper_fst:
  "fst (analyzeTextWrapper env text a b c d s0) =
     (case fst (analyzeText env text a b c d s0) of
        Inr result \<Rightarrow> Inr result
      | Inl err \<Rightarrow>
          Inr (JArr [if a then sentiment_result_dummy else JNull,
                     if b then entity_result_dummy else JNull,
                     if c then syntax_result_dummy else JNull,
                     if d then classify_result_dummy else JNull]))"
proof (cases "analyzeText env text a b c d s0")
  case (Pair awaited s1)
  then show ?thesis
    by (cases awaited) (simp_all add: analyzeTextWrapper_eq)
qed

text \<open>The definitions unfolded to run the model on an example.\<close>

lemmas eval_defs =
  analyzeTextWrapper_def analyzeText_def new_client_def environment_of_def make_document_def
  stage_def sentiment_result_of_def entity_result_of_def syntax_result_of_def
  classify_result_of_def sentence_record_def token_record_def category_record_def
  first_of_def getPath_def example_client_def example_token_def
  unavailable_syntax_client_def null_entities_client_def keyFilename_def

lemmas dummy_defs =
  sentiment_result_dummy_def entity_result_dummy_def syntax_result_dummy_def
  classify_result_dummy_def

section \<open>The fallback of analyzeTextWrapper\<close>

text \<open>
  Claim C1. Whenever a request that the call sends is rejected, or \<^verbatim>\<open>analyzeText\<close> throws
  for any other reason, the outcome of \<^verbatim>\<open>analyzeTextWrapper\<close> holds, in every slot whose
  flag is true, the fixed placeholder of that slot, and \<^verbatim>\<open>null\<close> in every slot whose flag
  is false. The whole outcome is given by the flags alone, so no slot holds data of the
  collaborator.
\<close>

theorem fallback_is_total:
  assumes "(new_client env = Inr client \<and>
            request_rejects client (make_document text) a b c d s0 err) \<or>
           fst (analyzeText env text a b c d s0) = Inl err"
  shows "fst (analyzeTextWrapper env text a b c d s0) =
     Inr (JArr
       [if a then JArr [JObj [(''magnitude'', JNum 0), (''score'', JNum 0)],
                        JObj [(''text'', JStr ''dummy_text''), (''magnitude'', JNum 0),
                              (''score'', JNum 0)]]
        else JNull,
        if b then JArr [JObj [(''name'', JStr ''dummy_name''), (''type'', JStr ''OTHER''),
                              (''salience'', JNum 0)]]
        else JNull,
        if c then JArr [JObj [(''word'', JStr ''dummy_word''),
                              (''partOfSpeech'', JStr ''NOUN'')]]
        else JNull,
        if d then JArr [JObj [(''name'', JStr ''dummy_category''), (''confidence'', JNum 0)]]
        else JNull])"
proof -
  from assms have "fst (analyzeText env text a b c d s0) = Inl err"
  proof
    assume "new_client env = Inr client \<and>
            request_rejects client (make_document text) a b c d s0 err"
    then show ?thesis by (simp add: request_rejects_analyzeText)
  qed
  then show ?thesis
    by (simp add: analyzeTextWrapper_fst dummy_defs)
qed

theorem fallback_is_total_witness:
  "request_rejects unavailable_syntax_client (make_document ''I love this.'')
     True False True True 0 (Thrown (JStr ''UNAVAILABLE'')) \<and>
   fst (analyzeTextWrapper (environment_of unavailable_syntax_client) ''I love this.''
          True False True True 0) =
     Inr (JArr
       [JArr [JObj [(''magnitude'', JNum 0), (''score'', JNum 0)],
              JObj [(''text'', JStr ''dummy_text''), (''magnitude'', JNum 0),
                    (''score'', JNum 0)]],
        JNull,
        JArr [JObj [(''word'', JStr ''dummy_word''), (''partOfSpeech'', JStr ''NOUN'')]],
        JArr [JObj [(''name'', JStr ''dummy_category''), (''confidence'', JNum 0)]]])"
proof -
  have c: "new_client (environment_of unavailable_syntax_client) = Inr unavailable_syntax_client"
    by (simp add: new_client_def environment_of_def)
  have r: "request_rejects unavailable_syntax_client (make_document ''I love this.'')
     True False True True 0 (Thrown (JStr ''UNAVAILABLE''))"
    by (simp add: request_rejects_def state_before_entities_def state_before_syntax_def
        state_before_classify_def eval_defs)
  from c r have "(new_client (environment_of unavailable_syntax_client) = Inr unavailable_syntax_client \<and>
            request_rejects unavailable_syntax_client (make_document ''I love this.'')
               True False True True 0 (Thrown (JStr ''UNAVAILABLE''))) \<or>
           fst (analyzeText (environment_of unavailable_syntax_client) ''I love this.''
               True False True True 0) = Inl (Thrown (JStr ''UNAVAILABLE''))"
    by (intro disjI1 conjI)
  from fallback_is_total [OF this] r show ?thesis by simp
qed

section \<open>What the caller sees\<close>

text \<open>
  \<^verbatim>\<open>analyzeTextWrapper\<close> itself always returns: for every environment and collaborator,
  every text, every combination of the four flags and every state of the outside world
  it never throws, and what it returns is an array of exactly four elements. The module
  does not export it and does not call it (the only call, at line 158, is commented out).
\<close>

lemma analyzeTextWrapper_returns:
  "\<exists>r1 r2 r3 r4 s1.
     analyzeTextWrapper env text a b c d s0 = (Inr (JArr [r1, r2, r3, r4]), s1)"
proof (cases "analyzeText env text a b c d s0")
  case (Pair awaited s1)
  show ?thesis
  proof (cases awaited)
    case (Inl err)
    with Pair show ?thesis by (simp add: analyzeTextWrapper_eq)
  next
    case (Inr result)
    with Pair have "fst (analyzeText env text a b c d s0) = Inr result" by simp
    from analyzeText_result [OF this]
    obtain r1 r2 r3 r4 where "result = JArr [r1, r2, r3, r4]" by auto
    with Pair Inr show ?thesis by (simp add: analyzeTextWrapper_eq)
  qed
qed

text \<open>
  Claim C2 says that the analyze operation never raises an error to its caller and
  always returns a four-element outcome. The operation a caller of the module gets is
  what line 202 exports, \<^verbatim>\<open>analyzeText\<close>, which has no \<^verbatim>\<open>try\<close>. With a collaborator
  that rejects the syntax request, the exported function called for syntax alone throws
  the collaborator's error to its caller and returns no outcome, while
  \<^verbatim>\<open>analyzeTextWrapper\<close> on the same input returns the four-element outcome with the
  syntax placeholder.
\<close>

theorem exported_analyze_raises:
  "fst (module_exports (environment_of unavailable_syntax_client) ''I love this.''
          False False True False 0) = Inl (Thrown (JStr ''UNAVAILABLE'')) \<and>
   fst (analyzeTextWrapper (environment_of unavailable_syntax_client) ''I love this.''
          False False True False 0) =
     Inr (JArr [JNull, JNull,
                JArr [JObj [(''word'', JStr ''dummy_word''),
                            (''partOfSpeech'', JStr ''NOUN'')]],
                JNull])"
  by (simp add: module_exports_def eval_defs dummy_defs)

text \<open>
  Claim C9. The function the module exports is \<^verbatim>\<open>analyzeText\<close>. When the library cannot
  be loaded or the client cannot be created, or when a request that the call sends is
  rejected, the exported function throws that very error to its caller, while
  \<^verbatim>\<open>analyzeTextWrapper\<close>, which the module does not export, returns the placeholder
  outcome on the same input.
\<close>

theorem exported_analyzeText_propagates:
  assumes "new_client env = Inl err \<or>
           (new_client env = Inr client \<and>
            request_rejects client (make_document text) a b c d s0 err)"
  shows "fst (module_exports env text a b c d s0) = Inl err \<and>
         fst (analyzeTextWrapper env text a b c d s0) =
           Inr (JArr [if a then sentiment_result_dummy else JNull,
                      if b then entity_result_dummy else JNull,
                      if c then syntax_result_dummy else JNull,
                      if d then classify_result_dummy else JNull])"
proof -
  from assms have "fst (analyzeText env text a b c d s0) = Inl err"
  proof
    assume "new_client env = Inl err"
    then show ?thesis by (simp add: analyzeText_no_client)
  next
    assume "new_client env = Inr client \<and>
            request_rejects client (make_document text) a b c d s0 err"
    then show ?thesis by (simp add: request_rejects_analyzeText)
  qed
  then show ?thesis
    by (simp add: analyzeTextWrapper_fst module_exports_def)
qed

theorem exported_analyzeText_propagates_witness:
  "request_rejects unavailable_syntax_client (make_document ''I love this.'')
     True True True False 0 (Thrown (JStr ''UNAVAILABLE'')) \<and>
   fst (module_exports (environment_of unavailable_syntax_client) ''I love this.''
          True True True False 0) = Inl (Thrown (JStr ''UNAVAILABLE'')) \<and>
   fst (analyzeTextWrapper (environment_of unavailable_syntax_client) ''I love this.''
          True True True False 0) =
     Inr (JArr [sentiment_result_dummy, entity_result_dummy, syntax_result_dummy, JNull])"
proof -
  have c: "new_client (environment_of unavailable_syntax_client) = Inr unavailable_syntax_client"
    by (simp add: new_client_def environment_of_def)
  have r: "request_rejects unavailable_syntax_client (make_document ''I love this.'')
     True True True False 0 (Thrown (JStr ''UNAVAILABLE''))"
    by (simp add: request_rejects_def state_before_entities_def state_before_syntax_def
        state_before_classify_def eval_defs)
  from c r have
    "new_client (environment_of unavailable_syntax_client) = Inl (Thrown (JStr ''UNAVAILABLE'')) \<or>
     (new_client (environment_of unavailable_syntax_client) = Inr unavailable_syntax_client \<and>
      request_rejects unavailable_syntax_client (make_document ''I love this.'')
        True True True False 0 (Thrown (JStr ''UNAVAILABLE'')))"
    by (intro disjI2 conjI)
  from exported_analyzeText_propagates [OF this] r show ?thesis by simp
qed

section \<open>No state of its own\<close>

lemma stage_fixed:
  assumes "\<And>s s'. fst (call doc s) = fst (call doc s')"
  shows "fst (stage flag call reshape doc s) = fst (stage flag call reshape doc s')"
  using assms [of s s'] by (simp add: stage_fst)

lemma analyzeText_fixed:
  assumes cl: "new_client env = Inr client" and fx: "fixed_responses client"
  shows "fst (analyzeText env text a b c d s) = fst (analyzeText env text a b c d s')"
proof -
  define doc where "doc = make_document text"
  have 1: "fst (stage a (analyzeSentiment client) sentiment_result_of doc s) =
           fst (stage a (analyzeSentiment client) sentiment_result_of doc s')"
    by (rule stage_fixed) (use fx in \<open>simp add: fixed_responses_def\<close>)
  have 2: "fst (stage b (analyzeEntities client) entity_result_of doc
                  (state_before_entities client doc a s)) =
           fst (stage b (analyzeEntities client) entity_result_of doc
                  (state_before_entities client doc a s'))"
    by (rule stage_fixed) (use fx in \<open>simp add: fixed_responses_def\<close>)
  have 3: "fst (stage c (analyzeSyntax client) syntax_result_of doc
                  (state_before_syntax client doc a b s)) =
           fst (stage c (analyzeSyntax client) syntax_result_of doc
                  (state_before_syntax client doc a b s'))"
    by (rule stage_fixed) (use fx in \<open>simp add: fixed_responses_def\<close>)
  have 4: "fst (stage d (classifyText client) classify_result_of doc
                  (state_before_classify client doc a b c s)) =
           fst (stage d (classifyText client) classify_result_of doc
                  (state_before_classify client doc a b c s'))"
    by (rule stage_fixed) (use fx in \<open>simp add: fixed_responses_def\<close>)
  show ?thesis
    unfolding analyzeText_fst [OF cl] doc_def [symmetric]
    by (simp only: 1 2 3 4)
qed

text \<open>
  Claim C8. With a collaborator whose responses are a fixed function of the document,
  the outcome of a call does not depend on the state of the outside world in which the
  call starts: a second call with the same text and flags, made in the state the first
  call left, gives the outcome of the first. This holds for \<^verbatim>\<open>analyzeText\<close> and for
  \<^verbatim>\<open>analyzeTextWrapper\<close>; neither keeps anything from one call to the next.
\<close>

theorem analyze_twice_same_outcome:
  assumes "\<forall>client. new_client env = Inr client \<longrightarrow> fixed_responses client"
  shows "fst (analyzeText env text a b c d (snd (analyzeText env text a b c d s))) =
           fst (analyzeText env text a b c d s) \<and>
         fst (analyzeTextWrapper env text a b c d
                (snd (analyzeTextWrapper env text a b c d s))) =
           fst (analyzeTextWrapper env text a b c d s) \<and>
         (\<forall>s'. fst (analyzeTextWrapper env text a b c d s') =
                 fst (analyzeTextWrapper env text a b c d s))"
proof -
  have any: "fst (analyzeText env text a b c d s1) = fst (analyzeText env text a b c d s2)"
    for s1 s2
  proof (cases "new_client env")
    case (Inl err)
    then show ?thesis by (simp add: analyzeText_no_client)
  next
    case (Inr client)
    with assms have "fixed_responses client" by simp
    with Inr show ?thesis by (rule analyzeText_fixed)
  qed
  have anyw: "fst (analyzeTextWrapper env text a b c d s1) =
              fst (analyzeTextWrapper env text a b c d s2)" for s1 s2
    unfolding analyzeTextWrapper_fst by (simp only: any [of s1 s2])
  show ?thesis
    using any anyw by blast
qed

theorem analyze_twice_same_outcome_witness:
  "new_client (environment_of example_client) = Inr example_client \<and>
   fixed_responses example_client \<and>
   snd (analyzeTextWrapper (environment_of example_client) ''I love this.''
          True False False False 0) = 1 \<and>
   fst (analyzeTextWrapper (environment_of example_client) ''I love this.''
          True False False False 1) =
   fst (analyzeTextWrapper (environment_of example_client) ''I love this.''
          True False False False 0)"
proof -
  have c: "new_client (environment_of example_client) = Inr example_client"
    by (simp add: new_client_def environment_of_def)
  have f: "fixed_responses example_client"
    by (simp add: fixed_responses_def example_client_def)
  from c f have h: "\<forall>client. new_client (environment_of example_client) = Inr client \<longrightarrow>
      fixed_responses client"
    by simp
  have s: "snd (analyzeTextWrapper (environment_of example_client) ''I love this.''
          True False False False 0) = 1"
    by (simp add: eval_defs)
  from analyze_twice_same_outcome [OF h, of "''I love this.''" True False False False 0]
  have "fst (analyzeTextWrapper (environment_of example_client) ''I love this.''
          True False False False 1) =
   fst (analyzeTextWrapper (environment_of example_client) ''I love this.''
          True False False False 0)"
    by blast
  with c f s show ?thesis by (intro conjI)
qed

section \<open>The blocks of a call that succeeds\<close>

lemma analyzeText_success:
  assumes cl: "new_client env = Inr client"
    and ok: "analyzeText env text a b c d s0 = (Inr (JArr [r1, r2, r3, r4]), s4)"
  shows "stage a (analyzeSentiment client) sentiment_result_of (make_document text) s0 =
           (Inr r1, state_before_entities client (make_document text) a s0)"
    and "stage b (analyzeEntities client) entity_result_of (make_document text)
           (state_before_entities client (make_document text) a s0) =
           (Inr r2, state_before_syntax client (make_document text) a b s0)"
    and "stage c (analyzeSyntax client) syntax_result_of (make_document text)
           (state_before_syntax client (make_document text) a b s0) =
           (Inr r3, state_before_classify client (make_document text) a b c s0)"
    and "stage d (classifyText client) classify_result_of (make_document text)
           (state_before_classify client (make_document text) a b c s0) = (Inr r4, s4)"
proof -
  from ok [unfolded analyzeText_Inr] cl
  obtain s1 s2 s3 where
    1: "stage a (analyzeSentiment client) sentiment_result_of (make_document text) s0 =
          (Inr r1, s1)" and
    2: "stage b (analyzeEntities client) entity_result_of (make_document text) s1 =
          (Inr r2, s2)" and
    3: "stage c (analyzeSyntax client) syntax_result_of (make_document text) s2 =
          (Inr r3, s3)" and
    4: "stage d (classifyText client) classify_result_of (make_document text) s3 =
          (Inr r4, s4)"
    by auto
  have s1: "s1 = state_before_entities client (make_document text) a s0"
    by (simp add: state_before_entities_def 1)
  have s2: "s2 = state_before_syntax client (make_document text) a b s0"
    using 2 by (simp add: state_before_syntax_def s1 [symmetric])
  have s3: "s3 = state_before_classify client (make_document text) a b c s0"
    using 3 by (simp add: state_before_classify_def s2 [symmetric])
  show "stage a (analyzeSentiment client) sentiment_result_of (make_document text) s0 =
           (Inr r1, state_before_entities client (make_document text) a s0)"
    using 1 s1 by simp
  show "stage b (analyzeEntities client) entity_result_of (make_document text)
           (state_before_entities client (make_document text) a s0) =
           (Inr r2, state_before_syntax client (make_document text) a b s0)"
    using 2 s1 s2 by simp
  show "stage c (analyzeSyntax client) syntax_result_of (make_document text)
           (state_before_syntax client (make_document text) a b s0) =
           (Inr r3, state_before_classify client (make_document text) a b c s0)"
    using 3 s2 s3 by simp
  show "stage d (classifyText client) classify_result_of (make_document text)
           (state_before_classify client (make_document text) a b c s0) = (Inr r4, s4)"
    using 4 s3 by simp
qed

lemma stage_flag_Inr:
  assumes "stage flag call reshape doc s = (Inr r, s')"
  shows "if flag then \<exists>response. call doc s = (Inr response, s') \<and> reshape response = Inr r
         else r = JNull \<and> s' = s"
  using assms by (cases flag) (auto simp: stage_True_Inr)

lemma sentence_record_Inr:
  "sentence_record sentence = Inr r \<longleftrightarrow>
     (\<exists>t m sc. getPath sentence ''text'' ''content'' = Inr t \<and>
        getPath sentence ''sentiment'' ''magnitude'' = Inr m \<and>
        getPath sentence ''sentiment'' ''score'' = Inr sc \<and>
        r = JObj [(''text'', t), (''magnitude'', m), (''score'', sc)])"
  unfolding sentence_record_def seq_eq_Inr by auto

lemma token_record_Inr:
  "token_record token = Inr r \<longleftrightarrow>
     (\<exists>tag word. getPath token ''partOfSpeech'' ''tag'' = Inr tag \<and>
        getPath token ''text'' ''content'' = Inr word \<and>
        r = JObj [(''partOfSpeech'', tag), (''word'', word)])"
  unfolding token_record_def seq_eq_Inr by auto

lemma category_record_Inr:
  "category_record category = Inr r \<longleftrightarrow>
     (\<exists>name confidence. getProp category ''name'' = Inr name \<and>
        getProp category ''confidence'' = Inr confidence \<and>
        r = JObj [(''name'', name), (''confidence'', confidence)])"
  unfolding category_record_def seq_eq_Inr by auto

lemma sentiment_result_of_Inr:
  "sentiment_result_of response = Inr r \<longleftrightarrow>
     (\<exists>raw magnitude score sentences items recs.
        first_of response = Inr raw \<and>
        getPath raw ''documentSentiment'' ''magnitude'' = Inr magnitude \<and>
        getPath raw ''documentSentiment'' ''score'' = Inr score \<and>
        getProp raw ''sentences'' = Inr sentences \<and>
        iterate sentences = Inr items \<and>
        list_all2 (\<lambda>sentence rec. sentence_record sentence = Inr rec) items recs \<and>
        r = JArr (JObj [(''magnitude'', magnitude), (''score'', score)] # recs))"
  unfolding sentiment_result_of_def seq_eq_Inr push_sentences_Inr by auto

lemma syntax_result_of_Inr:
  "syntax_result_of response = Inr r \<longleftrightarrow>
     (\<exists>raw tokens items recs.
        first_of response = Inr raw \<and>
        getProp raw ''tokens'' = Inr tokens \<and>
        iterate tokens = Inr items \<and>
        list_all2 (\<lambda>token rec. token_record token = Inr rec) items recs \<and>
        r = JArr recs)"
  unfolding syntax_result_of_def seq_eq_Inr push_tokens_Inr by auto

lemma classify_result_of_Inr:
  "classify_result_of response = Inr r \<longleftrightarrow>
     (\<exists>raw categories items recs.
        first_of response = Inr raw \<and>
        getProp raw ''categories'' = Inr categories \<and>
        iterate categories = Inr items \<and>
        list_all2 (\<lambda>category rec. category_record category = Inr rec) items recs \<and>
        r = JArr recs)"
  unfolding classify_result_of_def seq_eq_Inr push_categories_Inr by auto

section \<open>The shape of the slots of a call that succeeds\<close>

text \<open>
  Claim C4. When a call with the sentiment flag true succeeds, its sentiment slot is an
  array with at least one element. Element 0 is an object with exactly the two fields
  \<^verbatim>\<open>magnitude\<close> and \<^verbatim>\<open>score\<close>, read from \<^verbatim>\<open>documentSentiment\<close> of the collaborator's
  response. The elements after it correspond one to one, in order, to the sentences of the
  response, and each is an object with exactly the three fields \<^verbatim>\<open>text\<close>, \<^verbatim>\<open>magnitude\<close>
  and \<^verbatim>\<open>score\<close>, read from \<^verbatim>\<open>text.content\<close>, \<^verbatim>\<open>sentiment.magnitude\<close> and
  \<^verbatim>\<open>sentiment.score\<close> of that sentence.
\<close>

theorem sentiment_shape:
  assumes "new_client env = Inr client"
    and "analyzeText env text True b c d s0 = (Inr (JArr [r1, r2, r3, r4]), s4)"
  shows "\<exists>response raw magnitude score sentences items recs.
           fst (analyzeSentiment client (make_document text) s0) = Inr response \<and>
           first_of response = Inr raw \<and>
           getPath raw ''documentSentiment'' ''magnitude'' = Inr magnitude \<and>
           getPath raw ''documentSentiment'' ''score'' = Inr score \<and>
           getProp raw ''sentences'' = Inr sentences \<and>
           iterate sentences = Inr items \<and>
           r1 = JArr (JObj [(''magnitude'', magnitude), (''score'', score)] # recs) \<and>
           list_all2
             (\<lambda>sentence rec. \<exists>t m sc.
                getPath sentence ''text'' ''content'' = Inr t \<and>
                getPath sentence ''sentiment'' ''magnitude'' = Inr m \<and>
                getPath sentence ''sentiment'' ''score'' = Inr sc \<and>
                rec = JObj [(''text'', t), (''magnitude'', m), (''score'', sc)])
             items recs"
proof -
  from analyzeText_success(1) [OF assms]
  obtain response where
    resp: "fst (analyzeSentiment client (make_document text) s0) = Inr response" and
    shape: "sentiment_result_of response = Inr r1"
    by (auto simp: stage_True_Inr)
  from shape [unfolded sentiment_result_of_Inr sentence_record_Inr] resp
  show ?thesis by blast
qed

theorem sentiment_shape_witness:
  "new_client (environment_of example_client) = Inr example_client \<and>
   analyzeText (environment_of example_client) ''I love this.'' True False False False 0 =
     (Inr (JArr [JArr [JObj [(''magnitude'', JNum 0.9), (''score'', JNum 0.9)],
                       JObj [(''text'', JStr ''I love this.''), (''magnitude'', JNum 0.9),
                             (''score'', JNum 0.9)]],
                 JNull, JNull, JNull]), 1) \<and>
   (\<exists>response raw magnitude score sentences items recs.
      fst (analyzeSentiment example_client (make_document ''I love this.'') 0) = Inr response \<and>
      first_of response = Inr raw \<and>
      getPath raw ''documentSentiment'' ''magnitude'' = Inr magnitude \<and>
      getPath raw ''documentSentiment'' ''score'' = Inr score \<and>
      getProp raw ''sentences'' = Inr sentences \<and>
      iterate sentences = Inr items \<and>
      JArr [JObj [(''magnitude'', JNum 0.9), (''score'', JNum 0.9)],
            JObj [(''text'', JStr ''I love this.''), (''magnitude'', JNum 0.9),
                  (''score'', JNum 0.9)]] =
        JArr (JObj [(''magnitude'', magnitude), (''score'', score)] # recs) \<and>
      list_all2
        (\<lambda>sentence rec. \<exists>t m sc.
           getPath sentence ''text'' ''content'' = Inr t \<and>
           getPath sentence ''sentiment'' ''magnitude'' = Inr m \<and>
           getPath sentence ''sentiment'' ''score'' = Inr sc \<and>
           rec = JObj [(''text'', t), (''magnitude'', m), (''score'', sc)])
        items recs)"
proof -
  have c: "new_client (environment_of example_client) = Inr example_client"
    by (simp add: new_client_def environment_of_def)
  have r: "analyzeText (environment_of example_client) ''I love this.''
             True False False False 0 =
     (Inr (JArr [JArr [JObj [(''magnitude'', JNum 0.9), (''score'', JNum 0.9)],
                       JObj [(''text'', JStr ''I love this.''), (''magnitude'', JNum 0.9),
                             (''score'', JNum 0.9)]],
                 JNull, JNull, JNull]), 1)"
    by (simp add: eval_defs)
  from c r sentiment_shape [OF c r] show ?thesis by (intro conjI)
qed

text \<open>
  Claim C6. When a call with the syntax flag true succeeds, its syntax slot is an array
  whose elements correspond one to one, in order, to the tokens of the collaborator's
  response. Each element is an object with exactly the two fields \<^verbatim>\<open>partOfSpeech\<close> and
  \<^verbatim>\<open>word\<close>, read from \<^verbatim>\<open>partOfSpeech.tag\<close> and \<^verbatim>\<open>text.content\<close> of the token; nothing
  else of the token is carried over.
\<close>

theorem syntax_shape:
  assumes "new_client env = Inr client"
    and "analyzeText env text a b True d s0 = (Inr (JArr [r1, r2, r3, r4]), s4)"
  shows "\<exists>response raw tokens items recs.
           fst (analyzeSyntax client (make_document text)
                  (state_before_syntax client (make_document text) a b s0)) = Inr response \<and>
           first_of response = Inr raw \<and>
           getProp raw ''tokens'' = Inr tokens \<and>
           iterate tokens = Inr items \<and>
           r3 = JArr recs \<and>
           list_all2
             (\<lambda>token rec. \<exists>tag word.
                getPath token ''partOfSpeech'' ''tag'' = Inr tag \<and>
                getPath token ''text'' ''content'' = Inr word \<and>
                rec = JObj [(''partOfSpeech'', tag), (''word'', word)])
             items recs"
proof -
  from analyzeText_success(3) [OF assms]
  obtain response where
    resp: "fst (analyzeSyntax client (make_document text)
                  (state_before_syntax client (make_document text) a b s0)) = Inr response" and
    shape: "syntax_result_of response = Inr r3"
    by (auto simp: stage_True_Inr)
  from shape [unfolded syntax_result_of_Inr token_record_Inr] resp
  show ?thesis by blast
qed

theorem syntax_shape_witness:
  "new_client (environment_of example_client) = Inr example_client \<and>
   analyzeText (environment_of example_client) ''I love'' False False True False 0 =
     (Inr (JArr [JNull, JNull,
                 JArr [JObj [(''partOfSpeech'', JStr ''PRON''), (''word'', JStr ''I'')],
                       JObj [(''partOfSpeech'', JStr ''VERB''), (''word'', JStr ''love'')]],
                 JNull]), 1) \<and>
   (\<exists>response raw tokens items recs.
      fst (analyzeSyntax example_client (make_document ''I love'')
             (state_before_syntax example_client (make_document ''I love'') False False 0)) =
        Inr response \<and>
      first_of response = Inr raw \<and>
      getProp raw ''tokens'' = Inr tokens \<and>
      iterate tokens = Inr items \<and>
      JArr [JObj [(''partOfSpeech'', JStr ''PRON''), (''word'', JStr ''I'')],
            JObj [(''partOfSpeech'', JStr ''VERB''), (''word'', JStr ''love'')]] = JArr recs \<and>
      list_all2
        (\<lambda>token rec. \<exists>tag word.
           getPath token ''partOfSpeech'' ''tag'' = Inr tag \<and>
           getPath token ''text'' ''content'' = Inr word \<and>
           rec = JObj [(''partOfSpeech'', tag), (''word'', word)])
        items recs)"
proof -
  have c: "new_client (environment_of example_client) = Inr example_client"
    by (simp add: new_client_def environment_of_def)
  have r: "analyzeText (environment_of example_client) ''I love'' False False True False 0 =
     (Inr (JArr [JNull, JNull,
                 JArr [JObj [(''partOfSpeech'', JStr ''PRON''), (''word'', JStr ''I'')],
                       JObj [(''partOfSpeech'', JStr ''VERB''), (''word'', JStr ''love'')]],
                 JNull]), 1)"
    by (simp add: eval_defs)
  from c r syntax_shape [OF c r] show ?thesis by (intro conjI)
qed

text \<open>
  Claim C10. When a call succeeds, the length of each slot it produced is given by the
  collaborator's response for that kind: the sentiment slot has one element more than
  the response has sentences, the syntax slot has as many elements as the response has
  tokens, and the classification slot as many as the response has categories.
\<close>

theorem slot_lengths:
  assumes "new_client env = Inr client"
    and "analyzeText env text a b c d s0 = (Inr (JArr [r1, r2, r3, r4]), s4)"
  shows "(a \<longrightarrow> (\<exists>response items xs.
            fst (analyzeSentiment client (make_document text) s0) = Inr response \<and>
            returned_list response ''sentences'' = Inr items \<and>
            r1 = JArr xs \<and> length xs = 1 + length items)) \<and>
         (c \<longrightarrow> (\<exists>response items xs.
            fst (analyzeSyntax client (make_document text)
                   (state_before_syntax client (make_document text) a b s0)) = Inr response \<and>
            returned_list response ''tokens'' = Inr items \<and>
            r3 = JArr xs \<and> length xs = length items)) \<and>
         (d \<longrightarrow> (\<exists>response items xs.
            fst (classifyText client (make_document text)
                   (state_before_classify client (make_document text) a b c s0)) =
              Inr response \<and>
            returned_list response ''categories'' = Inr items \<and>
            r4 = JArr xs \<and> length xs = length items))"
proof (intro conjI impI)
  assume a
  with analyzeText_success(1) [OF assms]
  obtain response where
    resp: "fst (analyzeSentiment client (make_document text) s0) = Inr response" and
    shape: "sentiment_result_of response = Inr r1"
    by (auto simp: stage_True_Inr)
  from shape [unfolded sentiment_result_of_Inr]
  obtain raw sentences items recs head where
    "first_of response = Inr raw" "getProp raw ''sentences'' = Inr sentences"
    "iterate sentences = Inr items" "length items = length recs" "r1 = JArr (head # recs)"
    by (auto dest: list_all2_lengthD)
  then have "returned_list response ''sentences'' = Inr items \<and>
             r1 = JArr (head # recs) \<and> length (head # recs) = 1 + length items"
    by (simp add: returned_list_def)
  with resp show "\<exists>response items xs.
            fst (analyzeSentiment client (make_document text) s0) = Inr response \<and>
            returned_list response ''sentences'' = Inr items \<and>
            r1 = JArr xs \<and> length xs = 1 + length items"
    by blast
next
  assume c
  with analyzeText_success(3) [OF assms]
  obtain response where
    resp: "fst (analyzeSyntax client (make_document text)
                   (state_before_syntax client (make_document text) a b s0)) = Inr response" and
    shape: "syntax_result_of response = Inr r3"
    by (auto simp: stage_True_Inr)
  from shape [unfolded syntax_result_of_Inr]
  obtain raw tokens items recs where
    "first_of response = Inr raw" "getProp raw ''tokens'' = Inr tokens"
    "iterate tokens = Inr items" "length items = length recs" "r3 = JArr recs"
    by (auto dest: list_all2_lengthD)
  then have "returned_list response ''tokens'' = Inr items \<and>
             r3 = JArr recs \<and> length recs = length items"
    by (simp add: returned_list_def)
  with resp show "\<exists>response items xs.
            fst (analyzeSyntax client (make_document text)
                   (state_before_syntax client (make_document text) a b s0)) = Inr response \<and>
            returned_list response ''tokens'' = Inr items \<and>
            r3 = JArr xs \<and> length xs = length items"
    by blast
next
  assume d
  with analyzeText_success(4) [OF assms]
  obtain response where
    resp: "fst (classifyText client (make_document text)
                   (state_before_classify client (make_document text) a b c s0)) =
              Inr response" and
    shape: "classify_result_of response = Inr r4"
    by (auto simp: stage_True_Inr)
  from shape [unfolded classify_result_of_Inr]
  obtain raw categories items recs where
    "first_of response = Inr raw" "getProp raw ''categories'' = Inr categories"
    "iterate categories = Inr items" "length items = length recs" "r4 = JArr recs"
    by (auto dest: list_all2_lengthD)
  then have "returned_list response ''categories'' = Inr items \<and>
             r4 = JArr recs \<and> length recs = length items"
    by (simp add: returned_list_def)
  with resp show "\<exists>response items xs.
            fst (classifyText client (make_document text)
                   (state_before_classify client (make_document text) a b c s0)) =
              Inr response \<and>
            returned_list response ''categories'' = Inr items \<and>
            r4 = JArr xs \<and> length xs = length items"
    by blast
qed
theorem slot_lengths_witness:
  "new_client (environment_of example_client) = Inr example_client \<and>
   analyzeText (environment_of example_client) ''I love this.'' True True True True 0 =
     (Inr (JArr [JArr [JObj [(''magnitude'', JNum 0.9), (''score'', JNum 0.9)],
                       JObj [(''text'', JStr ''I love this.''), (''magnitude'', JNum 0.9),
                             (''score'', JNum 0.9)]],
                 JArr [JObj [(''name'', JStr ''this''), (''type'', JStr ''OTHER''),
                             (''salience'', JNum 1), (''mentions'', JArr [])]],
                 JArr [JObj [(''partOfSpeech'', JStr ''PRON''), (''word'', JStr ''I'')],
                       JObj [(''partOfSpeech'', JStr ''VERB''), (''word'', JStr ''love'')]],
                 JArr []]), 4) \<and>
   (\<exists>response items.
      fst (analyzeSentiment example_client (make_document ''I love this.'') 0) = Inr response \<and>
      returned_list response ''sentences'' = Inr items \<and> length items = 1) \<and>
   (\<exists>response items.
      fst (analyzeSyntax example_client (make_document ''I love this.'')
             (state_before_syntax example_client (make_document ''I love this.'')
                True True 0)) = Inr response \<and>
      returned_list response ''tokens'' = Inr items \<and> length items = 2) \<and>
   (\<exists>response items.
      fst (classifyText example_client (make_document ''I love this.'')
             (state_before_classify example_client (make_document ''I love this.'')
                True True True 0)) = Inr response \<and>
      returned_list response ''categories'' = Inr items \<and> length items = 0)"
proof -
  have c: "new_client (environment_of example_client) = Inr example_client"
    by (simp add: new_client_def environment_of_def)
  have r: "analyzeText (environment_of example_client) ''I love this.''
             True True True True 0 =
     (Inr (JArr [JArr [JObj [(''magnitude'', JNum 0.9), (''score'', JNum 0.9)],
                       JObj [(''text'', JStr ''I love this.''), (''magnitude'', JNum 0.9),
                             (''score'', JNum 0.9)]],
                 JArr [JObj [(''name'', JStr ''this''), (''type'', JStr ''OTHER''),
                             (''salience'', JNum 1), (''mentions'', JArr [])]],
                 JArr [JObj [(''partOfSpeech'', JStr ''PRON''), (''word'', JStr ''I'')],
                       JObj [(''partOfSpeech'', JStr ''VERB''), (''word'', JStr ''love'')]],
                 JArr []]), 4)"
    by (simp add: eval_defs)
  from slot_lengths [OF c r]
  have "(\<exists>response items.
      fst (analyzeSentiment example_client (make_document ''I love this.'') 0) = Inr response \<and>
      returned_list response ''sentences'' = Inr items \<and> length items = 1)"
    and "(\<exists>response items.
      fst (analyzeSyntax example_client (make_document ''I love this.'')
             (state_before_syntax example_client (make_document ''I love this.'')
                True True 0)) = Inr response \<and>
      returned_list response ''tokens'' = Inr items \<and> length items = 2)"
    and "(\<exists>response items.
      fst (classifyText example_client (make_document ''I love this.'')
             (state_before_classify example_client (make_document ''I love this.'')
                True True True 0)) = Inr response \<and>
      returned_list response ''categories'' = Inr items \<and> length items = 0)"
    by auto
  with c r show ?thesis by (intro conjI)
qed

section \<open>An empty classification\<close>

lemma classify_result_of_empty:
  assumes "returned_list response ''categories'' = Inr []"
  shows "classify_result_of response = Inr (JArr [])"
proof -
  from assms obtain raw categories where
    "first_of response = Inr raw" "getProp raw ''categories'' = Inr categories"
    "iterate categories = Inr []"
    by (auto simp: returned_list_def seq_eq_Inr)
  then show ?thesis by (simp add: classify_result_of_def)
qed

text \<open>
  Claim C7. Take a call with the classification flag true in which the classification
  request is answered with an empty list of categories. If the rest of the call succeeds
  (the same call without classification returns the slots \<open>r1\<close>, \<open>r2\<close>, \<open>r3\<close>), then the
  call succeeds with these slots and the empty array as its classification slot, from
  \<^verbatim>\<open>analyzeText\<close> and from \<^verbatim>\<open>analyzeTextWrapper\<close> alike: the empty list is not a failure
  and the placeholders are not used.
\<close>

theorem empty_classification_is_valid:
  assumes "new_client env = Inr client"
    and "analyzeText env text a b c False s0 = (Inr (JArr [r1, r2, r3, r4]), s3)"
    and "classifyText client (make_document text) s3 = (Inr response, s4)"
    and "returned_list response ''categories'' = Inr []"
  shows "analyzeText env text a b c True s0 = (Inr (JArr [r1, r2, r3, JArr []]), s4) \<and>
         analyzeTextWrapper env text a b c True s0 = (Inr (JArr [r1, r2, r3, JArr []]), s4)"
proof -
  note st = analyzeText_success [OF assms(1,2)]
  from st(4) have s3: "state_before_classify client (make_document text) a b c s0 = s3"
    by simp
  have "stage True (classifyText client) classify_result_of (make_document text) s3 =
          (Inr (JArr []), s4)"
    using assms(3) classify_result_of_empty [OF assms(4)] by (simp add: stage_True_Inr)
  with st(1,2,3) s3 assms(1)
  have "analyzeText env text a b c True s0 = (Inr (JArr [r1, r2, r3, JArr []]), s4)"
    unfolding analyzeText_Inr by auto
  then show ?thesis by (simp add: analyzeTextWrapper_eq)
qed

theorem empty_classification_is_valid_witness:
  "new_client (environment_of example_client) = Inr example_client \<and>
   analyzeText (environment_of example_client) ''I love'' False False True False 0 =
     (Inr (JArr [JNull, JNull,
                 JArr [JObj [(''partOfSpeech'', JStr ''PRON''), (''word'', JStr ''I'')],
                       JObj [(''partOfSpeech'', JStr ''VERB''), (''word'', JStr ''love'')]],
                 JNull]), 1) \<and>
   classifyText example_client (make_document ''I love'') 1 =
     (Inr (JArr [JObj [(''categories'', JArr [])]]), 2) \<and>
   returned_list (JArr [JObj [(''categories'', JArr [])]]) ''categories'' = Inr [] \<and>
   analyzeTextWrapper (environment_of example_client) ''I love'' False False True True 0 =
     (Inr (JArr [JNull, JNull,
                 JArr [JObj [(''partOfSpeech'', JStr ''PRON''), (''word'', JStr ''I'')],
                       JObj [(''partOfSpeech'', JStr ''VERB''), (''word'', JStr ''love'')]],
                 JArr []]), 2)"
proof -
  have c: "new_client (environment_of example_client) = Inr example_client"
    by (simp add: new_client_def environment_of_def)
  have r: "analyzeText (environment_of example_client) ''I love'' False False True False 0 =
     (Inr (JArr [JNull, JNull,
                 JArr [JObj [(''partOfSpeech'', JStr ''PRON''), (''word'', JStr ''I'')],
                       JObj [(''partOfSpeech'', JStr ''VERB''), (''word'', JStr ''love'')]],
                 JNull]), 1)"
    by (simp add: eval_defs)
  have q: "classifyText example_client (make_document ''I love'') 1 =
     (Inr (JArr [JObj [(''categories'', JArr [])]]), 2)"
    by (simp add: example_client_def)
  have e: "returned_list (JArr [JObj [(''categories'', JArr [])]]) ''categories'' = Inr []"
    by (simp add: returned_list_def first_of_def)
  from empty_classification_is_valid [OF c r q e] c r q e show ?thesis by (intro conjI) simp_all
qed

section \<open>The entities slot\<close>

text \<open>
  Claim C5 says that each element of the entities slot is the projection of the
  collaborator's entity onto the three fields \<^verbatim>\<open>name\<close>, \<^verbatim>\<open>type\<close> and \<^verbatim>\<open>salience\<close>. Line 89
  assigns \<^verbatim>\<open>entity_result_raw.entities\<close> as it is: an entity that the collaborator sends
  with a fourth field \<^verbatim>\<open>mentions\<close> arrives in the slot with that field.
\<close>

theorem entities_projection_counterexample:
  "fst (analyzeText (environment_of example_client) ''I love this.'' False True False False 0) =
     Inr (JArr [JNull,
                JArr [JObj [(''name'', JStr ''this''), (''type'', JStr ''OTHER''),
                            (''salience'', JNum 1), (''mentions'', JArr [])]],
                JNull, JNull]) \<and>
   JObj [(''name'', JStr ''this''), (''type'', JStr ''OTHER''), (''salience'', JNum 1),
         (''mentions'', JArr [])] \<noteq>
   JObj [(''name'', JStr ''this''), (''type'', JStr ''OTHER''), (''salience'', JNum 1)]"
  by (simp add: eval_defs)

text \<open>
  Claim C5, amended. When a call with the entities flag true succeeds, its entities slot
  is the value of the property \<^verbatim>\<open>entities\<close> of the collaborator's response, unchanged:
  the same elements in the same order, each with every field the collaborator gave it.
\<close>

theorem entities_passed_through:
  assumes "new_client env = Inr client"
    and "analyzeText env text a True c d s0 = (Inr (JArr [r1, r2, r3, r4]), s4)"
  shows "\<exists>response raw.
           fst (analyzeEntities client (make_document text)
                  (state_before_entities client (make_document text) a s0)) = Inr response \<and>
           first_of response = Inr raw \<and>
           getProp raw ''entities'' = Inr r2"
proof -
  from analyzeText_success(2) [OF assms]
  obtain response where
    resp: "fst (analyzeEntities client (make_document text)
                  (state_before_entities client (make_document text) a s0)) = Inr response" and
    shape: "entity_result_of response = Inr r2"
    by (auto simp: stage_True_Inr)
  from shape [unfolded entity_result_of_def seq_eq_Inr] resp
  show ?thesis by blast
qed

theorem entities_passed_through_witness:
  "new_client (environment_of example_client) = Inr example_client \<and>
   analyzeText (environment_of example_client) ''I love this.'' True True False False 0 =
     (Inr (JArr [JArr [JObj [(''magnitude'', JNum 0.9), (''score'', JNum 0.9)],
                       JObj [(''text'', JStr ''I love this.''), (''magnitude'', JNum 0.9),
                             (''score'', JNum 0.9)]],
                 JArr [JObj [(''name'', JStr ''this''), (''type'', JStr ''OTHER''),
                             (''salience'', JNum 1), (''mentions'', JArr [])]],
                 JNull, JNull]), 2) \<and>
   (\<exists>response raw.
      fst (analyzeEntities example_client (make_document ''I love this.'')
             (state_before_entities example_client (make_document ''I love this.'') True 0)) =
        Inr response \<and>
      first_of response = Inr raw \<and>
      getProp raw ''entities'' =
        Inr (JArr [JObj [(''name'', JStr ''this''), (''type'', JStr ''OTHER''),
                         (''salience'', JNum 1), (''mentions'', JArr [])]]))"
proof -
  have c: "new_client (environment_of example_client) = Inr example_client"
    by (simp add: new_client_def environment_of_def)
  have r: "analyzeText (environment_of example_client) ''I love this.''
             True True False False 0 =
     (Inr (JArr [JArr [JObj [(''magnitude'', JNum 0.9), (''score'', JNum 0.9)],
                       JObj [(''text'', JStr ''I love this.''), (''magnitude'', JNum 0.9),
                             (''score'', JNum 0.9)]],
                 JArr [JObj [(''name'', JStr ''this''), (''type'', JStr ''OTHER''),
                             (''salience'', JNum 1), (''mentions'', JArr [])]],
                 JNull, JNull]), 2)"
    by (simp add: eval_defs)
  from c r entities_passed_through [OF c r] show ?thesis by (intro conjI)
qed

section \<open>Which slots are null\<close>

lemma sentiment_result_of_not_null: "sentiment_result_of response \<noteq> Inr JNull"
  by (simp add: sentiment_result_of_Inr)

lemma syntax_result_of_not_null: "syntax_result_of response \<noteq> Inr JNull"
  by (simp add: syntax_result_of_Inr)

lemma classify_result_of_not_null: "classify_result_of response \<noteq> Inr JNull"
  by (simp add: classify_result_of_Inr)

lemma stage_null:
  assumes "stage flag call reshape doc s = (Inr r, s')"
    and "\<And>response. reshape response \<noteq> Inr JNull"
  shows "(r = JNull) = (\<not> flag)"
proof (cases flag)
  case True
  with assms(1) obtain response where "reshape response = Inr r"
    by (auto simp: stage_True_Inr)
  with assms(2) [of response] True show ?thesis by auto
next
  case False
  with assms(1) show ?thesis by simp
qed

text \<open>
  Claim C3 says that a slot is \<^verbatim>\<open>null\<close> exactly when its flag is false, on both paths.
  The entities slot is whatever the collaborator's response holds under \<^verbatim>\<open>entities\<close>: a
  response with \<^verbatim>\<open>entities: null\<close> makes a call succeed with a \<^verbatim>\<open>null\<close> entities slot
  although the entities flag is true.
\<close>

theorem flag_gating_counterexample:
  "fst (analyzeText (environment_of null_entities_client) ''I love this.''
          False True False False 0) = Inr (JArr [JNull, JNull, JNull, JNull]) \<and>
   fst (analyzeTextWrapper (environment_of null_entities_client) ''I love this.''
          False True False False 0) = Inr (JArr [JNull, JNull, JNull, JNull])"
  by (simp add: eval_defs)

text \<open>
  Claim C3, amended. In the outcome of \<^verbatim>\<open>analyzeTextWrapper\<close>, on the success path and on
  the fallback path, the sentiment, syntax and classification slots are \<^verbatim>\<open>null\<close> exactly
  when their flag is false. The entities slot is \<^verbatim>\<open>null\<close> exactly when its flag is false
  or the call succeeded and the collaborator's entity response holds \<^verbatim>\<open>null\<close> under
  \<^verbatim>\<open>entities\<close>.
\<close>

theorem flag_gating:
  assumes "analyzeTextWrapper env text a b c d s0 = (Inr (JArr [r1, r2, r3, r4]), s4)"
  shows "(r1 = JNull) = (\<not> a) \<and>
         (r2 = JNull) =
           (\<not> b \<or>
            (\<exists>client response raw.
               new_client env = Inr client \<and>
               analyzeText env text a b c d s0 = (Inr (JArr [r1, r2, r3, r4]), s4) \<and>
               fst (analyzeEntities client (make_document text)
                      (state_before_entities client (make_document text) a s0)) =
                 Inr response \<and>
               first_of response = Inr raw \<and>
               getProp raw ''entities'' = Inr JNull)) \<and>
         (r3 = JNull) = (\<not> c) \<and>
         (r4 = JNull) = (\<not> d)"
proof (cases "analyzeText env text a b c d s0")
  case (Pair awaited s1)
  show ?thesis
  proof (cases awaited)
    case (Inl err)
    with Pair assms have slots:
      "r1 = (if a then sentiment_result_dummy else JNull)"
      "r2 = (if b then entity_result_dummy else JNull)"
      "r3 = (if c then syntax_result_dummy else JNull)"
      "r4 = (if d then classify_result_dummy else JNull)"
      by (simp_all add: analyzeTextWrapper_eq)
    from Pair Inl have "analyzeText env text a b c d s0 \<noteq> (Inr (JArr [r1, r2, r3, r4]), s4)"
      by simp
    with slots show ?thesis by (simp add: dummy_defs)
  next
    case (Inr result)
    with Pair assms have ok: "analyzeText env text a b c d s0 = (Inr (JArr [r1, r2, r3, r4]), s4)"
      by (simp add: analyzeTextWrapper_eq)
    then obtain client where cl: "new_client env = Inr client"
      unfolding analyzeText_Inr by blast
    note st = analyzeText_success [OF cl ok]
    have 1: "(r1 = JNull) = (\<not> a)"
      using st(1) sentiment_result_of_not_null by (rule stage_null)
    have 3: "(r3 = JNull) = (\<not> c)"
      using st(3) syntax_result_of_not_null by (rule stage_null)
    have 4: "(r4 = JNull) = (\<not> d)"
      using st(4) classify_result_of_not_null by (rule stage_null)
    have 2: "(r2 = JNull) =
           (\<not> b \<or>
            (\<exists>client response raw.
               new_client env = Inr client \<and>
               analyzeText env text a b c d s0 = (Inr (JArr [r1, r2, r3, r4]), s4) \<and>
               fst (analyzeEntities client (make_document text)
                      (state_before_entities client (make_document text) a s0)) =
                 Inr response \<and>
               first_of response = Inr raw \<and>
               getProp raw ''entities'' = Inr JNull))"
    proof (cases b)
      case False
      with st(2) show ?thesis by simp
    next
      case True
      with st(2) obtain response where
        resp: "fst (analyzeEntities client (make_document text)
                      (state_before_entities client (make_document text) a s0)) =
                 Inr response" and
        shape: "entity_result_of response = Inr r2"
        by (auto simp: stage_True_Inr)
      from shape obtain raw where
        raw: "first_of response = Inr raw" "getProp raw ''entities'' = Inr r2"
        unfolding entity_result_of_def seq_eq_Inr by blast
      show ?thesis
      proof
        assume "r2 = JNull"
        with cl ok resp raw show "\<not> b \<or>
            (\<exists>client response raw.
               new_client env = Inr client \<and>
               analyzeText env text a b c d s0 = (Inr (JArr [r1, r2, r3, r4]), s4) \<and>
               fst (analyzeEntities client (make_document text)
                      (state_before_entities client (make_document text) a s0)) =
                 Inr response \<and>
               first_of response = Inr raw \<and>
               getProp raw ''entities'' = Inr JNull)"
          by blast
      next
        assume "\<not> b \<or>
            (\<exists>client response raw.
               new_client env = Inr client \<and>
               analyzeText env text a b c d s0 = (Inr (JArr [r1, r2, r3, r4]), s4) \<and>
               fst (analyzeEntities client (make_document text)
                      (state_before_entities client (make_document text) a s0)) =
                 Inr response \<and>
               first_of response = Inr raw \<and>
               getProp raw ''entities'' = Inr JNull)"
        with True obtain client' response' raw' where
          "new_client env = Inr client'"
          "fst (analyzeEntities client' (make_document text)
                      (state_before_entities client' (make_document text) a s0)) =
                 Inr response'"
          "first_of response' = Inr raw'" "getProp raw' ''entities'' = Inr JNull"
          by blast
        with cl resp raw show "r2 = JNull" by simp
      qed
    qed
    from 1 2 3 4 show ?thesis by (intro conjI)
  qed
qed

theorem flag_gating_witness:
  "analyzeTextWrapper (environment_of null_entities_client) ''I love this.''
     True True False True 0 =
     (Inr (JArr [JArr [JObj [(''magnitude'', JNum 0.9), (''score'', JNum 0.9)],
                       JObj [(''text'', JStr ''I love this.''), (''magnitude'', JNum 0.9),
                             (''score'', JNum 0.9)]],
                 JNull, JNull, JArr []]), 3) \<and>
   (\<exists>response raw.
      fst (analyzeEntities null_entities_client (make_document ''I love this.'')
             (state_before_entities null_entities_client (make_document ''I love this.'')
                True 0)) = Inr response \<and>
      first_of response = Inr raw \<and>
      getProp raw ''entities'' = Inr JNull)"
proof -
  have c: "new_client (environment_of null_entities_client) = Inr null_entities_client"
    by (simp add: new_client_def environment_of_def)
  have r: "analyzeTextWrapper (environment_of null_entities_client) ''I love this.''
     True True False True 0 =
     (Inr (JArr [JArr [JObj [(''magnitude'', JNum 0.9), (''score'', JNum 0.9)],
                       JObj [(''text'', JStr ''I love this.''), (''magnitude'', JNum 0.9),
                             (''score'', JNum 0.9)]],
                 JNull, JNull, JArr []]), 3)"
    by (simp add: eval_defs)
  from flag_gating [OF r] c
  have "\<exists>response raw.
      fst (analyzeEntities null_entities_client (make_document ''I love this.'')
             (state_before_entities null_entities_client (make_document ''I love this.'')
                True 0)) = Inr response \<and>
      first_of response = Inr raw \<and>
      getProp raw ''entities'' = Inr JNull"
    by auto
  with r show ?thesis by (intro conjI)
qed

end
